theory Spec2Isabelle
  imports Main "HOL-Library.Sublist"
begin

section \<open>Values, exceptions and text\<close>

text \<open>
  The values that \<^verbatim>\<open>response.json()\<close> hands to the program. An object is the parsed dict:
  its keys are distinct and in insertion order. A float is kept as the text that Python
  prints for it (\<^verbatim>\<open>repr\<close>), which determines the float: \<^verbatim>\<open>0.0\<close>, \<^verbatim>\<open>-0.0\<close>, \<^verbatim>\<open>1.0\<close> and
  \<^verbatim>\<open>2.0\<close> are the only floats equal to the integers 0, 1 and 2. Strings are ASCII.
\<close>

datatype json =
    JNull
  | JBool bool
  | JInt int
  | JFloat string
  | JStr string
  | JList "json list"
  | JObj "(string \<times> json) list"

text \<open>
  The exceptions that leave the functions of the module. \<^verbatim>\<open>sys.exit()\<close> is
  \<open>SystemExit None\<close> and \<^verbatim>\<open>sys.exit(500)\<close> is \<open>SystemExit (Some 500)\<close>.
\<close>

datatype exn =
    ValueError
  | TypeError
  | KeyError
  | AttributeError
  | OSError
  | SystemExit "int option"

text \<open>Python's truth value of a parsed value, as \<^verbatim>\<open>if raw_awic:\<close> tests it.\<close>

fun truthy :: "json \<Rightarrow> bool" where
  "truthy JNull = False"
| "truthy (JBool b) = b"
| "truthy (JInt n) = (n \<noteq> 0)"
| "truthy (JFloat t) = (t \<noteq> ''0.0'' \<and> t \<noteq> ''-0.0'')"
| "truthy (JStr s) = (s \<noteq> [])"
| "truthy (JList xs) = (xs \<noteq> [])"
| "truthy (JObj kvs) = (kvs \<noteq> [])"

definition digit_char :: "nat \<Rightarrow> char" where
  "digit_char d = ''0123456789'' ! d"

fun nat_str :: "nat \<Rightarrow> string" where
  "nat_str n = (if n < 10 then [digit_char n] else nat_str (n div 10) @ [digit_char (n mod 10)])"

declare nat_str.simps [simp del]

definition int_str :: "int \<Rightarrow> string" where
  "int_str i = (if i < 0 then CHR ''-'' # nat_str (nat (- i)) else nat_str (nat i))"

text \<open>Decimal digits of \<open>n\<close>, filled with zeros on the left up to width \<open>w\<close>.\<close>

definition zpad :: "nat \<Rightarrow> nat \<Rightarrow> string" where
  "zpad w n = replicate (w - length (nat_str n)) CHR ''0'' @ nat_str n"

text \<open>
  \<^verbatim>\<open>str(v)\<close> of a scalar. The text of a list starts with \<^verbatim>\<open>[\<close> and that of a dict with
  \<^verbatim>\<open>{\<close>; the rest of it is not modelled (\<open>None\<close>), and each use says what the program
  does with such a text.
\<close>

fun py_str :: "json \<Rightarrow> string option" where
  "py_str JNull = Some ''None''"
| "py_str (JBool b) = Some (if b then ''True'' else ''False'')"
| "py_str (JInt n) = Some (int_str n)"
| "py_str (JFloat t) = Some t"
| "py_str (JStr s) = Some s"
| "py_str (JList xs) = None"
| "py_str (JObj kvs) = None"

text \<open>
  \<^verbatim>\<open>f"{v:06d}"\<close>: an integer (a bool is one) is written in decimal, zero-filled to six
  characters, the sign counted; a string or a float has no format code \<^verbatim>\<open>d\<close> (ValueError);
  None, a list and a dict take no format string at all (TypeError).
\<close>

fun format_06d :: "json \<Rightarrow> exn + string" where
  "format_06d (JInt n) =
     Inr (if n < 0 then CHR ''-'' # zpad 5 (nat (- n)) else zpad 6 (nat n))"
| "format_06d (JBool b) = Inr (zpad 6 (if b then 1 else 0))"
| "format_06d (JStr s) = Inl ValueError"
| "format_06d (JFloat t) = Inl ValueError"
| "format_06d JNull = Inl TypeError"
| "format_06d (JList xs) = Inl TypeError"
| "format_06d (JObj kvs) = Inl TypeError"

section \<open>Parsing and printing timestamps\<close>

text \<open>
  \<^verbatim>\<open>datetime.strptime\<close> turns the format into a regular expression with ordered
  alternatives, takes the first match found by backtracking from the start of the text,
  and then refuses a text with characters left over. A parser here returns every way to
  match a prefix, in the order the backtracking tries them.
\<close>

type_synonym 'a parser = "string \<Rightarrow> ('a \<times> string) list"

definition digit_val :: "char \<Rightarrow> nat option" where
  "digit_val c = map_of (zip ''0123456789'' [0, 1, 2, 3, 4, 5, 6, 7, 8, 9]) c"

text \<open>One digit whose value lies between \<open>lo\<close> and \<open>hi\<close>: the class \<^verbatim>\<open>[lo-hi]\<close>.\<close>

definition digit_in :: "nat \<Rightarrow> nat \<Rightarrow> nat parser" where
  "digit_in lo hi s =
     (case s of
        [] \<Rightarrow> []
      | c # cs \<Rightarrow>
          (case digit_val c of
             None \<Rightarrow> []
           | Some v \<Rightarrow> if lo \<le> v \<and> v \<le> hi then [(v, cs)] else []))"

text \<open>Two digits in a row, read as a number.\<close>

definition two_digits :: "nat \<Rightarrow> nat \<Rightarrow> nat \<Rightarrow> nat \<Rightarrow> nat parser" where
  "two_digits lo1 hi1 lo2 hi2 s =
     concat (map (\<lambda>(a, r). map (\<lambda>(b, r'). (10 * a + b, r')) (digit_in lo2 hi2 r))
                 (digit_in lo1 hi1 s))"

text \<open>A literal character; the expression is compiled ignoring case.\<close>

definition lit :: "char \<Rightarrow> char \<Rightarrow> unit parser" where
  "lit lower upper s =
     (case s of [] \<Rightarrow> [] | c # cs \<Rightarrow> if c = lower \<or> c = upper then [((), cs)] else [])"

text \<open>\<^verbatim>\<open>%Y\<close> is \<^verbatim>\<open>\d\d\d\d\<close>.\<close>

definition dir_Y :: "nat parser" where
  "dir_Y s =
     concat (map (\<lambda>(a, r). map (\<lambda>(b, r'). (100 * a + b, r')) (two_digits 0 9 0 9 r))
                 (two_digits 0 9 0 9 s))"

text \<open>\<^verbatim>\<open>%m\<close> is \<^verbatim>\<open>1[0-2]|0[1-9]|[1-9]\<close>.\<close>

definition dir_m :: "nat parser" where
  "dir_m s = two_digits 1 1 0 2 s @ two_digits 0 0 1 9 s @ digit_in 1 9 s"

text \<open>\<^verbatim>\<open>%d\<close> is \<^verbatim>\<open>3[0-1]|[1-2]\d|0[1-9]|[1-9]| [1-9]\<close>.\<close>

definition dir_d :: "nat parser" where
  "dir_d s =
     two_digits 3 3 0 1 s @ two_digits 1 2 0 9 s @ two_digits 0 0 1 9 s @ digit_in 1 9 s @
     concat (map (\<lambda>(u, r). digit_in 1 9 r) (lit CHR '' '' CHR '' '' s))"

text \<open>\<^verbatim>\<open>%H\<close> is \<^verbatim>\<open>2[0-3]|[0-1]\d|\d\<close>.\<close>

definition dir_H :: "nat parser" where
  "dir_H s = two_digits 2 2 0 3 s @ two_digits 0 1 0 9 s @ digit_in 0 9 s"

text \<open>\<^verbatim>\<open>%M\<close> is \<^verbatim>\<open>[0-5]\d|\d\<close>.\<close>

definition dir_M :: "nat parser" where
  "dir_M s = two_digits 0 5 0 9 s @ digit_in 0 9 s"

text \<open>\<^verbatim>\<open>%S\<close> is \<^verbatim>\<open>6[0-1]|[0-5]\d|\d\<close>.\<close>

definition dir_S :: "nat parser" where
  "dir_S s = two_digits 6 6 0 1 s @ two_digits 0 5 0 9 s @ digit_in 0 9 s"

text \<open>One parser after the other: every match of the first, each continued by the second.\<close>

definition seq :: "'a parser \<Rightarrow> ('a \<Rightarrow> 'b parser) \<Rightarrow> 'b parser" where
  "seq p f s = concat (map (\<lambda>(a, r). f a r) (p s))"

definition ret :: "'a \<Rightarrow> 'a parser" where
  "ret a s = [(a, s)]"

record datetime =
  year :: nat
  month :: nat
  day :: nat
  hour :: nat
  minute :: nat
  second :: nat

definition leap_year :: "nat \<Rightarrow> bool" where
  "leap_year y = (y mod 4 = 0 \<and> (y mod 100 \<noteq> 0 \<or> y mod 400 = 0))"

definition days_in_month :: "nat \<Rightarrow> nat \<Rightarrow> nat" where
  "days_in_month y m =
     (if m = 2 then (if leap_year y then 29 else 28)
      else if m = 4 \<or> m = 6 \<or> m = 9 \<or> m = 11 then 30 else 31)"

text \<open>The checks of the \<^verbatim>\<open>datetime\<close> constructor: years 1 to 9999, no second 60.\<close>

definition valid_datetime :: "datetime \<Rightarrow> bool" where
  "valid_datetime t =
     (1 \<le> year t \<and> year t \<le> 9999 \<and> 1 \<le> month t \<and> month t \<le> 12 \<and>
      1 \<le> day t \<and> day t \<le> days_in_month (year t) (month t) \<and>
      hour t \<le> 23 \<and> minute t \<le> 59 \<and> second t \<le> 59)"

text \<open>
  The end of \<^verbatim>\<open>strptime\<close>, whatever the format: no match, characters left over after the
  first match, and a date or time that does not exist all raise ValueError.
\<close>

definition first_match :: "datetime parser \<Rightarrow> string \<Rightarrow> exn + datetime" where
  "first_match p s =
     (case p s of
        [] \<Rightarrow> Inl ValueError
      | (t, r) # _ \<Rightarrow> if r \<noteq> [] then Inl ValueError
                     else if valid_datetime t then Inr t else Inl ValueError)"

text \<open>\<^verbatim>\<open>datetime.datetime.strptime(s, "%Y%m%dT%H%M%S")\<close>.\<close>

definition strptime_compact :: "string \<Rightarrow> exn + datetime" where
  "strptime_compact =
     first_match
       (seq dir_Y (\<lambda>y. seq dir_m (\<lambda>mo. seq dir_d (\<lambda>d. seq (lit CHR ''t'' CHR ''T'') (\<lambda>_.
        seq dir_H (\<lambda>h. seq dir_M (\<lambda>mi. seq dir_S (\<lambda>sec.
          ret \<lparr>year = y, month = mo, day = d, hour = h, minute = mi, second = sec\<rparr>))))))))"

text \<open>\<^verbatim>\<open>datetime.datetime.strptime(s, '%Y-%m-%d')\<close>: the time of day is midnight.\<close>

definition strptime_date :: "string \<Rightarrow> exn + datetime" where
  "strptime_date =
     first_match
       (seq dir_Y (\<lambda>y. seq (lit CHR ''-'' CHR ''-'') (\<lambda>_. seq dir_m (\<lambda>mo.
        seq (lit CHR ''-'' CHR ''-'') (\<lambda>_. seq dir_d (\<lambda>d.
          ret \<lparr>year = y, month = mo, day = d, hour = 0, minute = 0, second = 0\<rparr>))))))"

text \<open>
  \<^verbatim>\<open>t.strftime('%Y-%m-%dT%H:%M:%S')\<close>. The month, the day and the time fields are
  zero-filled to two digits. The year is printed by the C library: on Linux \<^verbatim>\<open>%Y\<close> is the
  plain decimal number, with no leading zeros for a year before 1000
  (\<^verbatim>\<open>999-01-15T09:30:00\<close>); from the year 1000 on it has its four digits everywhere.
\<close>

definition strftime_iso :: "datetime \<Rightarrow> string" where
  "strftime_iso t =
     nat_str (year t) @ ''-'' @ zpad 2 (month t) @ ''-'' @ zpad 2 (day t) @ ''T'' @
     zpad 2 (hour t) @ '':'' @ zpad 2 (minute t) @ '':'' @ zpad 2 (second t)"

section \<open>Formatting one observation\<close>

text \<open>
  Lines 67 to 73 of the source for a list \<open>awic\<close>: the time \<^verbatim>\<open>awic[2]\<close> is formatted first, so
  a list shorter than three elements raises IndexError there, which the handler turns into
  ValueError, as it does any ValueError; a TypeError passes through. The text of a list or
  a dict in \<^verbatim>\<open>awic[1]\<close> cannot start with a digit, so \<^verbatim>\<open>strptime\<close> refuses it.
\<close>

definition observation_datetime :: "json list \<Rightarrow> exn + string" where
  "observation_datetime awic =
     (if length awic \<le> 2 then Inl ValueError
      else case format_06d (awic ! 2) of
             Inl e \<Rightarrow> Inl e
           | Inr time_str \<Rightarrow>
               (case py_str (awic ! 1) of
                  None \<Rightarrow> Inl ValueError
                | Some date_str \<Rightarrow>
                    (case strptime_compact (date_str @ ''T'' @ time_str) of
                       Inl e \<Rightarrow> Inl e
                     | Inr t \<Rightarrow> Inr (strftime_iso t))))"

text \<open>
  The lookup \<^verbatim>\<open>mission_labels.get(mission_code, "")\<close> in the dict with the keys 0, 1 and 2.
  A key is found by hash and equality, so \<^verbatim>\<open>False\<close> and \<^verbatim>\<open>0.0\<close> find the key 0, \<^verbatim>\<open>True\<close> and
  \<^verbatim>\<open>1.0\<close> the key 1, \<^verbatim>\<open>2.0\<close> the key 2; a list or a dict cannot be hashed (TypeError).
  \<open>None\<close> is the Python \<^verbatim>\<open>None\<close> of a list with no element 12.
\<close>

definition mission_key :: "json \<Rightarrow> exn + int option" where
  "mission_key v =
     (case v of
        JNull \<Rightarrow> Inr None
      | JBool b \<Rightarrow> Inr (Some (if b then 1 else 0))
      | JInt n \<Rightarrow> Inr (Some n)
      | JFloat t \<Rightarrow>
          Inr (if t = ''0.0'' \<or> t = ''-0.0'' then Some 0
               else if t = ''1.0'' then Some 1
               else if t = ''2.0'' then Some 2 else None)
      | JStr s \<Rightarrow> Inr None
      | JList xs \<Rightarrow> Inl TypeError
      | JObj kvs \<Rightarrow> Inl TypeError)"

definition mission_labels :: "int \<rightharpoonup> string" where
  "mission_labels =
     [0 \<mapsto> ''Sentinel-1 Sentinel-2'', 1 \<mapsto> ''Sentinel-1'', 2 \<mapsto> ''Sentinel-2'']"

definition mission :: "json list \<Rightarrow> exn + string" where
  "mission awic =
     (case (if length awic > 12 then mission_key (awic ! 12) else Inr None) of
        Inl e \<Rightarrow> Inl e
      | Inr None \<Rightarrow> Inr ''''
      | Inr (Some k) \<Rightarrow> Inr (case mission_labels k of None \<Rightarrow> '''' | Some l \<Rightarrow> l))"

text \<open>
  \<^verbatim>\<open>format_awic_product(awic, index)\<close>. A string can be indexed, but its element is a string,
  which \<^verbatim>\<open>06d\<close> refuses, and a short one raises IndexError: ValueError both ways. A dict
  parsed from JSON has no key \<^verbatim>\<open>2\<close> (KeyError); the other values cannot be indexed
  (TypeError). A slice never fails: \<^verbatim>\<open>awic[3:12]\<close> is what there is of the elements 3 to 11.
\<close>

definition format_awic_product :: "json \<Rightarrow> int \<Rightarrow> exn + json list" where
  "format_awic_product raw index =
     (case raw of
        JList awic \<Rightarrow>
          (case observation_datetime awic of
             Inl e \<Rightarrow> Inl e
           | Inr dt \<Rightarrow>
               (case mission awic of
                  Inl e \<Rightarrow> Inl e
                | Inr label \<Rightarrow>
                    Inr ([JInt (index + 1), awic ! 0, JStr dt] @ take 9 (drop 3 awic) @
                         [JStr label])))
      | JStr s \<Rightarrow> Inl ValueError
      | JObj kvs \<Rightarrow> Inl KeyError
      | _ \<Rightarrow> Inl TypeError)"

section \<open>Building the request\<close>

text \<open>\<^verbatim>\<open>s.replace(c, new)\<close> for a single character \<open>c\<close>.\<close>

definition replace_char :: "char \<Rightarrow> string \<Rightarrow> string \<Rightarrow> string" where
  "replace_char c new s = concat (map (\<lambda>x. if x = c then new else [x]) s)"

text \<open>\<^verbatim>\<open>wkt.replace(',', '%2C').replace(' ', '+')\<close>, lines 171 and 176.\<close>

definition encode_wkt :: "string \<Rightarrow> string" where
  "encode_wkt wkt = replace_char CHR '' '' ''+'' (replace_char CHR '','' ''%2C'' wkt)"

text \<open>
  \<^verbatim>\<open>validate_Rfc3339\<close>: the date is parsed for the check only and returned as it came; the
  bare \<^verbatim>\<open>except\<close> turns every failure into ValueError.
\<close>

definition validate_Rfc3339 :: "string \<Rightarrow> exn + string" where
  "validate_Rfc3339 date_text =
     (case strptime_date date_text of Inl e \<Rightarrow> Inl ValueError | Inr t \<Rightarrow> Inr date_text)"

text \<open>
  The cloud ceiling is an integer for a caller of the library and a string from the command
  line; \<^verbatim>\<open>if cloudCoverageMax:\<close> drops 0 and the empty string.
\<close>

datatype cloud = CloudInt int | CloudStr string

fun cloud_truthy :: "cloud \<Rightarrow> bool" where
  "cloud_truthy (CloudInt n) = (n \<noteq> 0)"
| "cloud_truthy (CloudStr s) = (s \<noteq> [])"

fun cloud_str :: "cloud \<Rightarrow> string" where
  "cloud_str (CloudInt n) = int_str n"
| "cloud_str (CloudStr s) = s"

record awic_request =
  outputDir :: "string option"
  awic_http_request :: "string option"
  geometry_http_request :: "string option"
  awic_result_file :: "string option"

definition URL_ROOT :: string where
  "URL_ROOT = ''https://wsi.land.copernicus.eu/awic/''"

definition AWIC_PROC :: string where
  "AWIC_PROC = ''get_awic''"

definition GEOMETRY_PROC :: string where
  "GEOMETRY_PROC = ''get_geometries''"

definition URL_PARAM_GEOMETRYWKT_WGS84 :: string where
  "URL_PARAM_GEOMETRYWKT_WGS84 = ''geometrywkt_wgs84''"

definition URL_PARAM_GEOMETRYWKT_LAEA :: string where
  "URL_PARAM_GEOMETRYWKT_LAEA = ''geometrywkt_laea''"

definition URL_PARAM_OBSERVATIONDATE_AFTER :: string where
  "URL_PARAM_OBSERVATIONDATE_AFTER = ''startdate''"

definition URL_PARAM_OBSERVATIONDATE_BEFORE :: string where
  "URL_PARAM_OBSERVATIONDATE_BEFORE = ''completiondate''"

definition URL_PARAM_CLOUD_PERCENTAGE :: string where
  "URL_PARAM_CLOUD_PERCENTAGE = ''cloudcoveragemax''"

definition URL_PARAM_OUTPUT_SRID_GEOMETRY :: string where
  "URL_PARAM_OUTPUT_SRID_GEOMETRY = ''output_srid''"

text \<open>\<^verbatim>\<open>sep.join(xs)\<close>.\<close>

fun join :: "string \<Rightarrow> string list \<Rightarrow> string" where
  "join sep [] = []"
| "join sep [x] = x"
| "join sep (x # y # ys) = x @ sep @ join sep (y # ys)"

text \<open>
  An optional date of \<^verbatim>\<open>build_request\<close>: \<^verbatim>\<open>None\<close> and the empty string are skipped by
  \<^verbatim>\<open>if startDate:\<close>, any other string is validated and stored under its key.
\<close>

definition date_param :: "string \<Rightarrow> string option \<Rightarrow> exn + (string \<times> string) list" where
  "date_param key d =
     (case d of
        None \<Rightarrow> Inr []
      | Some text \<Rightarrow>
          if text = [] then Inr []
          else (case validate_Rfc3339 text of Inl e \<Rightarrow> Inl e | Inr v \<Rightarrow> Inr [(key, v)]))"

text \<open>
  Lines 184 to 208, once the geometry is chosen. The dict \<^verbatim>\<open>url_params\<close> keeps the order in
  which its keys were stored: geometry, cloud ceiling, start date, completion date. The
  two targets are stored at the very end, so a failure leaves the object as it was.
\<close>

definition build_targets ::
  "awic_request \<Rightarrow> string \<Rightarrow> string \<Rightarrow> string \<Rightarrow> cloud option \<Rightarrow> string option \<Rightarrow>
   string option \<Rightarrow> (exn + unit) \<times> awic_request" where
  "build_targets self url_param_geometry_key geometry output_srid cloudCoverageMax startDate
     completionDate =
     (let p_geometry = [(url_param_geometry_key, geometry)];
          p_cloud = (case cloudCoverageMax of
                       None \<Rightarrow> []
                     | Some c \<Rightarrow> if cloud_truthy c
                                 then [(URL_PARAM_CLOUD_PERCENTAGE, cloud_str c)] else [])
      in case date_param URL_PARAM_OBSERVATIONDATE_AFTER startDate of
           Inl e \<Rightarrow> (Inl e, self)
         | Inr p_start \<Rightarrow>
             (case date_param URL_PARAM_OBSERVATIONDATE_BEFORE completionDate of
                Inl e \<Rightarrow> (Inl e, self)
              | Inr p_completion \<Rightarrow>
                  (let url_params = p_geometry @ p_cloud @ p_start @ p_completion
                   in if url_params \<noteq> []
                      then (Inr (),
                            self\<lparr>awic_http_request :=
                                   Some (URL_ROOT @ AWIC_PROC @ ''?'' @
                                         join ''&'' (map (\<lambda>(k, v). k @ ''='' @ v) url_params)),
                                 geometry_http_request :=
                                   Some (URL_ROOT @ GEOMETRY_PROC @ ''?'' @
                                         url_param_geometry_key @ ''='' @ geometry @ ''&'' @
                                         URL_PARAM_OUTPUT_SRID_GEOMETRY @ ''='' @ output_srid)\<rparr>)
                      else (Inl (SystemExit None), self))))"

text \<open>
  \<^verbatim>\<open>AwicRequest.build_request\<close>. The result is what the call raises, or nothing, together
  with the object as the call leaves it. Log messages are not modelled.
\<close>

definition build_request ::
  "awic_request \<Rightarrow> string option \<Rightarrow> string option \<Rightarrow> string option \<Rightarrow> string option \<Rightarrow>
   cloud option \<Rightarrow> (exn + unit) \<times> awic_request" where
  "build_request self startDate completionDate geometrywkt_wgs84 geometrywkt_laea
     cloudCoverageMax =
     (if geometrywkt_wgs84 \<noteq> None \<and> geometrywkt_laea \<noteq> None then (Inl (SystemExit None), self)
      else case geometrywkt_wgs84 of
             Some wgs84 \<Rightarrow>
               build_targets self URL_PARAM_GEOMETRYWKT_WGS84 (encode_wkt wgs84) ''wgs84''
                 cloudCoverageMax startDate completionDate
           | None \<Rightarrow>
               (case geometrywkt_laea of
                  Some laea \<Rightarrow>
                    build_targets self URL_PARAM_GEOMETRYWKT_LAEA (encode_wkt laea) ''laea''
                      cloudCoverageMax startDate completionDate
                | None \<Rightarrow> (Inl (SystemExit None), self)))"

section \<open>The network and the file system\<close>

text \<open>
  What \<^verbatim>\<open>requests.get\<close> gives back: either it raises a \<^verbatim>\<open>RequestException\<close> (no
  connection, timeout), or there is a response with a status code and a body, where the
  body is \<open>None\<close> when \<^verbatim>\<open>response.json()\<close> cannot parse it.
\<close>

datatype http_outcome = RequestFailed | Response nat "json option"

text \<open>
  The surroundings of a run: the answer of the server to each URL, and for each path
  whether it exists, whether \<^verbatim>\<open>os.makedirs\<close> succeeds on it and whether it can be opened
  for writing (an IOError is taken to come from \<^verbatim>\<open>open\<close>).
\<close>

record world =
  http_get :: "string \<Rightarrow> http_outcome"
  abspath :: "string \<Rightarrow> string"
  path_exists :: "string \<Rightarrow> bool"
  makedirs_ok :: "string \<Rightarrow> bool"
  open_ok :: "string \<Rightarrow> bool"

text \<open>
  What a run does to the outside, in order. A table is kept as its header and its rows;
  the program writes a row \<open>p\<close> as \<^verbatim>\<open>';'.join(str(x) for x in p)\<close>.
\<close>

datatype effect =
    MakeDirs string
  | HttpGet string
  | WriteCsv string string "json list list"
  | WriteXml string

text \<open>\<^verbatim>\<open>os.path.join(a, b)\<close> for a relative \<open>b\<close>.\<close>

definition path_join :: "string \<Rightarrow> string \<Rightarrow> string" where
  "path_join a b = (if a = [] \<or> last a = CHR ''/'' then a @ b else a @ ''/'' @ b)"

text \<open>
  \<^verbatim>\<open>for item in v\<close>: a list gives its elements, a dict its keys, a string its characters;
  nothing else can be iterated (TypeError).
\<close>

fun py_iter :: "json \<Rightarrow> exn + json list" where
  "py_iter (JList xs) = Inr xs"
| "py_iter (JObj kvs) = Inr (map (\<lambda>(k, v). JStr k) kvs)"
| "py_iter (JStr s) = Inr (map (\<lambda>c. JStr [c]) s)"
| "py_iter JNull = Inl TypeError"
| "py_iter (JBool b) = Inl TypeError"
| "py_iter (JInt n) = Inl TypeError"
| "py_iter (JFloat t) = Inl TypeError"

text \<open>\<^verbatim>\<open>item.get('j')\<close>: only a dict has the method; a missing key gives \<^verbatim>\<open>None\<close>.\<close>

fun get_key :: "string \<Rightarrow> json \<Rightarrow> exn + json" where
  "get_key k (JObj kvs) = Inr (case map_of kvs k of None \<Rightarrow> JNull | Some v \<Rightarrow> v)"
| "get_key k JNull = Inl AttributeError"
| "get_key k (JBool b) = Inl AttributeError"
| "get_key k (JInt n) = Inl AttributeError"
| "get_key k (JFloat t) = Inl AttributeError"
| "get_key k (JStr s) = Inl AttributeError"
| "get_key k (JList xs) = Inl AttributeError"

section \<open>The geometry request\<close>

text \<open>The loop of lines 318 to 321.\<close>

fun geometry_loop :: "json list \<Rightarrow> exn + json list" where
  "geometry_loop [] = Inr []"
| "geometry_loop (item # items) =
     (case get_key ''j'' item of
        Inl e \<Rightarrow> Inl e
      | Inr geom \<Rightarrow>
          (case geometry_loop items of
             Inl e \<Rightarrow> Inl e
           | Inr geometries \<Rightarrow> Inr (if truthy geom then geom # geometries else geometries)))"

text \<open>
  The rows of \<^verbatim>\<open>geometries.csv\<close>: each geometry is iterated for its cells, and the first one
  that cannot be iterated stops the loop with a TypeError, the rows before it written.
\<close>

fun geometry_rows :: "json list \<Rightarrow> json list list \<times> exn option" where
  "geometry_rows [] = ([], None)"
| "geometry_rows (p # ps) =
     (case py_iter p of
        Inl e \<Rightarrow> ([], Some e)
      | Inr cells \<Rightarrow> (case geometry_rows ps of (rows, r) \<Rightarrow> (cells # rows, r)))"

definition is_error_object :: "json \<Rightarrow> bool" where
  "is_error_object json_root =
     (case json_root of
        JObj kvs \<Rightarrow> map_of kvs ''code'' = Some (JStr ''0100E'')
      | _ \<Rightarrow> False)"

definition csv_mode :: "string \<Rightarrow> bool" where
  "csv_mode returnMode = (returnMode = ''csv'' \<or> returnMode = ''csv_and_variable'')"

text \<open>
  \<^verbatim>\<open>AwicRequest.request_geometry\<close>. Only the status 414 is looked at; there is no
  \<^verbatim>\<open>raise_for_status\<close> here.
\<close>

definition request_geometry ::
  "world \<Rightarrow> string \<Rightarrow> string \<Rightarrow> string option \<Rightarrow> effect list \<times> (exn + json list)" where
  "request_geometry w http_request returnMode geometriesPath =
     (case http_get w http_request of
        RequestFailed \<Rightarrow> ([HttpGet http_request], Inl (SystemExit (Some 500)))
      | Response status_code body \<Rightarrow>
          if status_code = 414 then ([HttpGet http_request], Inl (SystemExit (Some 500)))
          else (case body of
                  None \<Rightarrow> ([HttpGet http_request], Inl (SystemExit (Some 500)))
                | Some json_root \<Rightarrow>
                    if is_error_object json_root
                    then ([HttpGet http_request], Inl (SystemExit (Some 413)))
                    else (case py_iter json_root of
                            Inl e \<Rightarrow> ([HttpGet http_request], Inl e)
                          | Inr items \<Rightarrow>
                              (case geometry_loop items of
                                 Inl e \<Rightarrow> ([HttpGet http_request], Inl e)
                               | Inr geometries \<Rightarrow>
                                   if csv_mode returnMode
                                   then (case geometriesPath of
                                           None \<Rightarrow>
                                             ([HttpGet http_request], Inl (SystemExit (Some 500)))
                                         | Some dir \<Rightarrow>
                                             if dir = []
                                             then ([HttpGet http_request],
                                                   Inl (SystemExit (Some 500)))
                                             else if \<not> open_ok w (path_join dir ''geometries.csv'')
                                             then ([HttpGet http_request],
                                                   Inl (SystemExit (Some 500)))
                                             else (case geometry_rows geometries of
                                                     (rows, r) \<Rightarrow>
                                                       ([HttpGet http_request,
                                                         WriteCsv (path_join dir ''geometries.csv'')
                                                           ''id;geometry;basin_name;eu_hydro_id;object_nam;area;river_km''
                                                           rows],
                                                        case r of
                                                          Some e \<Rightarrow> Inl e
                                                        | None \<Rightarrow> Inr geometries)))
                                   else ([HttpGet http_request], Inr geometries)))))"

section \<open>The observation request\<close>

text \<open>The loop of lines 371 to 375; \<open>i\<close> is the counter of \<^verbatim>\<open>enumerate\<close>.\<close>

fun awic_loop :: "int \<Rightarrow> json list \<Rightarrow> exn + json list list" where
  "awic_loop i [] = Inr []"
| "awic_loop i (item # items) =
     (case get_key ''j'' item of
        Inl e \<Rightarrow> Inl e
      | Inr raw_awic \<Rightarrow>
          if truthy raw_awic
          then (case format_awic_product raw_awic i of
                  Inl e \<Rightarrow> Inl e
                | Inr formatted \<Rightarrow>
                    (case awic_loop (i + 1) items of
                       Inl e \<Rightarrow> Inl e
                     | Inr awic_products \<Rightarrow> Inr (formatted # awic_products)))
          else awic_loop (i + 1) items)"

text \<open>
  \<^verbatim>\<open>AwicRequest.request_page\<close>. \<^verbatim>\<open>raise_for_status\<close> raises for the status codes 400 to
  599; the response is not looked at for an error object.
\<close>

definition request_page :: "world \<Rightarrow> string \<Rightarrow> effect list \<times> (exn + json list list)" where
  "request_page w http_request =
     ([HttpGet http_request],
      case http_get w http_request of
        RequestFailed \<Rightarrow> Inr []
      | Response status_code body \<Rightarrow>
          if 400 \<le> status_code \<and> status_code < 600 then Inr []
          else (case body of
                  None \<Rightarrow> Inr []
                | Some json_root \<Rightarrow>
                    (case py_iter json_root of
                       Inl e \<Rightarrow> Inl e
                     | Inr items \<Rightarrow> awic_loop 0 items)))"

section \<open>Running the requests\<close>

text \<open>
  The two writes of lines 248 to 274, for a mode with text output. \<^verbatim>\<open>os.path.join\<close> of a
  missing directory is a TypeError.
\<close>

definition write_outputs ::
  "world \<Rightarrow> awic_request \<Rightarrow> json list list \<Rightarrow> effect list \<times> (exn + unit) \<times> awic_request" where
  "write_outputs w self awic_products =
     (case outputDir self of
        None \<Rightarrow> ([], Inl TypeError, self)
      | Some dir \<Rightarrow>
          (let self' = self\<lparr>awic_result_file := Some (path_join dir ''awic.csv'')\<rparr>
           in if \<not> open_ok w (path_join dir ''awic.csv'')
              then ([], Inl (SystemExit None), self')
              else if \<not> open_ok w (path_join dir ''AWIC_MTD.xml'')
              then ([WriteCsv (path_join dir ''awic.csv'')
                       ''id;geometries_id;datetime;water_perc;ice_perc;other_perc;cloud_perc;shdw_perc;nd_perc;qa;s1_perc;s2_perc;source''
                       awic_products],
                    Inl (SystemExit None), self')
              else ([WriteCsv (path_join dir ''awic.csv'')
                       ''id;geometries_id;datetime;water_perc;ice_perc;other_perc;cloud_perc;shdw_perc;nd_perc;qa;s1_perc;s2_perc;source''
                       awic_products,
                     WriteXml (path_join dir ''AWIC_MTD.xml'')],
                    Inr (), self')))"

text \<open>
  \<^verbatim>\<open>AwicRequest.execute_request\<close>: what was done to the outside, what the call raises or
  returns, and the object afterwards.
\<close>

definition execute_request ::
  "world \<Rightarrow> awic_request \<Rightarrow> string \<Rightarrow> bool \<Rightarrow>
   effect list \<times> (exn + json list option \<times> json list list option) \<times> awic_request" where
  "execute_request w self returnMode request_geometries =
     (case awic_http_request self of
        None \<Rightarrow> ([], Inl (SystemExit None), self)
      | Some awic_url \<Rightarrow>
          (case geometry_http_request self of
             None \<Rightarrow> ([], Inl (SystemExit None), self)
           | Some geometry_url \<Rightarrow>
               (case (if request_geometries
                      then (case request_geometry w geometry_url returnMode (outputDir self) of
                              (fx, Inl e) \<Rightarrow> (fx, Inl e)
                            | (fx, Inr g) \<Rightarrow> (fx, Inr (Some g)))
                      else ([], Inr None)) of
                  (fx1, Inl e) \<Rightarrow> (fx1, Inl e, self)
                | (fx1, Inr geometries) \<Rightarrow>
                    (case request_page w awic_url of
                       (fx2, Inl e) \<Rightarrow> (fx1 @ fx2, Inl e, self)
                     | (fx2, Inr awic_products) \<Rightarrow>
                         if csv_mode returnMode
                         then (case write_outputs w self awic_products of
                                 (fx3, Inl e, self') \<Rightarrow> (fx1 @ fx2 @ fx3, Inl e, self')
                               | (fx3, Inr u, self') \<Rightarrow>
                                   (fx1 @ fx2 @ fx3,
                                    Inr (if returnMode = ''csv'' then (None, None)
                                         else (geometries, Some awic_products)),
                                    self'))
                         else (fx1 @ fx2, Inr (geometries, Some awic_products), self)))))"

text \<open>\<^verbatim>\<open>AwicRequest.__init__\<close>; a failing \<^verbatim>\<open>os.makedirs\<close> raises OSError.\<close>

definition init :: "world \<Rightarrow> string option \<Rightarrow> string \<Rightarrow> effect list \<times> (exn + awic_request)" where
  "init w outputDir_arg returnMode =
     (case outputDir_arg of
        None \<Rightarrow>
          ([], Inr \<lparr>outputDir = None, awic_http_request = None, geometry_http_request = None,
                    awic_result_file = None\<rparr>)
      | Some d \<Rightarrow>
          (let dir = abspath w d;
               self = \<lparr>outputDir = Some dir, awic_http_request = None,
                       geometry_http_request = None, awic_result_file = None\<rparr>
           in if returnMode \<noteq> ''variable'' \<and> \<not> path_exists w dir
              then (if makedirs_ok w dir then ([MakeDirs dir], Inr self) else ([], Inl OSError))
              else ([], Inr self)))"

text \<open>\<^verbatim>\<open>download_awic_products\<close>.\<close>

definition download_awic_products ::
  "world \<Rightarrow> string \<Rightarrow> string option \<Rightarrow> string option \<Rightarrow> string option \<Rightarrow> string option \<Rightarrow>
   string option \<Rightarrow> cloud option \<Rightarrow> bool \<Rightarrow>
   effect list \<times> (exn + json list option \<times> json list list option)" where
  "download_awic_products w returnMode outputDir_arg startDate completionDate geometrywkt_wgs84
     geometrywkt_laea cloudCoverageMax requestGeometries =
     (if returnMode \<notin> {''csv'', ''csv_and_variable'', ''variable''} then ([], Inl ValueError)
      else if returnMode \<in> {''csv'', ''csv_and_variable''} \<and> outputDir_arg = None
      then ([], Inl ValueError)
      else (case init w outputDir_arg returnMode of
              (fx0, Inl e) \<Rightarrow> (fx0, Inl e)
            | (fx0, Inr awic) \<Rightarrow>
                (case build_request awic startDate completionDate geometrywkt_wgs84
                        geometrywkt_laea cloudCoverageMax of
                   (Inl e, awic1) \<Rightarrow> (fx0, Inl e)
                 | (Inr u, awic1) \<Rightarrow>
                     (case execute_request w awic1 returnMode requestGeometries of
                        (fx, Inl e, awic2) \<Rightarrow> (fx0 @ fx, Inl e)
                      | (fx, Inr r, awic2) \<Rightarrow> (fx0 @ fx, Inr r)))))"

section \<open>Decoding a query value\<close>

text \<open>
  The decoding that the specification sets against the encoding of the geometry: one pass
  from the left that maps \<^verbatim>\<open>%2C\<close> back to a comma and \<^verbatim>\<open>+\<close> back to a space. It is not
  part of the program.
\<close>

fun decode_wkt :: "string \<Rightarrow> string" where
  "decode_wkt [] = []"
| "decode_wkt (c # cs) =
     (if c = CHR ''%'' \<and> take 2 cs = ''2C'' then CHR '','' # decode_wkt (drop 2 cs)
      else if c = CHR ''+'' then CHR '' '' # decode_wkt cs
      else c # decode_wkt cs)"

text \<open>The encoding of one character, to state what the encoding does to a text.\<close>

definition enc_char :: "char \<Rightarrow> string" where
  "enc_char c = (if c = CHR '','' then ''%2C'' else if c = CHR '' '' then ''+'' else [c])"

section \<open>Digits and zero filling\<close>

lemma lt10_cases:
  "(k::nat) < 10 \<Longrightarrow> k = 0 \<or> k = 1 \<or> k = 2 \<or> k = 3 \<or> k = 4 \<or> k = 5 \<or> k = 6 \<or> k = 7 \<or> k = 8 \<or> k = 9"
  by arith

lemma digit_val_digit_char: "k < 10 \<Longrightarrow> digit_val (digit_char k) = Some k"
  using lt10_cases [of k] by (auto simp: digit_val_def digit_char_def)

lemma nat_str_small: "n < 10 \<Longrightarrow> nat_str n = [digit_char n]"
  by (simp add: nat_str.simps)

lemma nat_str_large: "\<not> n < 10 \<Longrightarrow> nat_str n = nat_str (n div 10) @ [digit_char (n mod 10)]"
  by (subst nat_str.simps) simp

lemma length_nat_str_pos: "0 < length (nat_str n)"
  by (subst nat_str.simps) simp

lemma zpad_Suc: "0 < w \<Longrightarrow> zpad (Suc w) n = zpad w (n div 10) @ [digit_char (n mod 10)]"
proof (cases "n < 10")
  case True
  assume w: "0 < w"
  from True have d: "n div 10 = 0" and m: "n mod 10 = n" by simp_all
  have r: "replicate w CHR ''0'' = replicate (w - 1) CHR ''0'' @ [CHR ''0'']"
    using w by (cases w) (simp_all add: replicate_append_same)
  show ?thesis
    using True by (simp add: zpad_def nat_str_small d m r digit_char_def)
next
  case False
  then show ?thesis
    using length_nat_str_pos [of "n div 10"] by (simp add: zpad_def nat_str_large)
qed

lemma zpad_1: "n < 10 \<Longrightarrow> zpad (Suc 0) n = [digit_char n]"
  by (simp add: zpad_def nat_str_small)

lemma zpad_2: "n < 100 \<Longrightarrow> zpad 2 n = [digit_char (n div 10), digit_char (n mod 10)]"
proof -
  assume n: "n < 100"
  then have "n div 10 < 10" by simp
  then have "zpad (Suc 0) (n div 10) = [digit_char (n div 10)]" by (rule zpad_1)
  moreover have "zpad (Suc (Suc 0)) n = zpad (Suc 0) (n div 10) @ [digit_char (n mod 10)]"
    by (rule zpad_Suc) simp
  ultimately show ?thesis by (simp add: numeral_2_eq_2)
qed

lemma div10_step: "(a * 10 + b) div 10 = a + b div (10::nat)"
  by simp

lemma mod10_step: "(a * 10 + b) mod 10 = b mod (10::nat)"
  by simp

lemma zpad_4:
  assumes "a < 100" "b < 100"
  shows "zpad 4 (a * 100 + b) = zpad 2 a @ zpad 2 b"
proof -
  let ?n = "a * 100 + b"
  have s1: "zpad (Suc 3) ?n = zpad 3 (?n div 10) @ [digit_char (?n mod 10)]"
    by (rule zpad_Suc) simp
  have e1: "?n = (a * 10) * 10 + b" by simp
  have d1: "?n div 10 = a * 10 + b div 10"
    unfolding e1 by (rule div10_step)
  have m1: "?n mod 10 = b mod 10"
    unfolding e1 by (rule mod10_step)
  have b10: "b div 10 < 10" using assms by simp
  have s2: "zpad (Suc 2) (a * 10 + b div 10) =
            zpad 2 ((a * 10 + b div 10) div 10) @ [digit_char ((a * 10 + b div 10) mod 10)]"
    by (rule zpad_Suc) simp
  have d2: "(a * 10 + b div 10) div 10 = a"
    unfolding div10_step using b10 by simp
  have m2: "(a * 10 + b div 10) mod 10 = b div 10"
    unfolding mod10_step using b10 by simp
  have n4: "Suc 3 = 4" and n3: "Suc 2 = 3" by simp_all
  have "zpad 4 ?n = zpad 3 (a * 10 + b div 10) @ [digit_char (b mod 10)]"
    using s1 by (simp only: n4 d1 m1)
  also have "zpad 3 (a * 10 + b div 10) = zpad 2 a @ [digit_char (b div 10)]"
    using s2 by (simp only: n3 d2 m2)
  finally have "zpad 4 ?n = zpad 2 a @ [digit_char (b div 10), digit_char (b mod 10)]"
    by simp
  then show ?thesis using assms(2) by (simp add: zpad_2)
qed

lemma zpad_6:
  assumes "h < 100" "m < 100" "s < 100"
  shows "zpad 6 (h * 10000 + m * 100 + s) = zpad 2 h @ zpad 2 m @ zpad 2 s"
proof -
  let ?n = "h * 10000 + m * 100 + s"
  have a: "zpad (Suc 5) ?n = zpad 5 (?n div 10) @ [digit_char (?n mod 10)]"
    by (rule zpad_Suc) simp
  have b: "zpad (Suc 4) (?n div 10) = zpad 4 (?n div 10 div 10) @ [digit_char (?n div 10 mod 10)]"
    by (rule zpad_Suc) simp
  have e1: "?n = (h * 1000 + m * 10) * 10 + s" by simp
  have d1: "?n div 10 = h * 1000 + m * 10 + s div 10"
    unfolding e1 by (rule div10_step)
  have n1: "?n mod 10 = s mod 10"
    unfolding e1 by (rule mod10_step)
  have e2: "h * 1000 + m * 10 + s div 10 = (h * 100 + m) * 10 + s div 10" by simp
  have s10: "s div 10 < 10" using assms by simp
  have n100: "?n div 10 div 10 = h * 100 + m"
    unfolding d1 e2 div10_step using s10 by simp
  have n10: "?n div 10 mod 10 = s div 10"
    unfolding d1 e2 mod10_step using s10 by simp
  have c: "zpad 4 (h * 100 + m) = zpad 2 h @ zpad 2 m"
    using assms(1,2) by (rule zpad_4)
  have s5: "Suc 5 = 6" and s4: "Suc 4 = 5" by simp_all
  have "zpad 6 ?n = zpad 5 (?n div 10) @ [digit_char (s mod 10)]"
    using a by (simp only: s5 n1)
  also have "zpad 5 (?n div 10) = zpad 4 (h * 100 + m) @ [digit_char (s div 10)]"
    using b by (simp only: s4 n100 n10)
  also note c
  finally have "zpad 6 ?n = zpad 2 h @ zpad 2 m @ [digit_char (s div 10), digit_char (s mod 10)]"
    by simp
  then show ?thesis using assms(3) by (simp add: zpad_2)
qed

section \<open>The directives on zero-filled fields\<close>

lemma digit_in_digit_char:
  "k < 10 \<Longrightarrow> digit_in lo hi (digit_char k # r) = (if lo \<le> k \<and> k \<le> hi then [(k, r)] else [])"
  by (simp add: digit_in_def digit_val_digit_char)

lemma two_digits_zpad:
  "n < 100 \<Longrightarrow> two_digits l1 h1 l2 h2 (zpad 2 n @ r) =
     (if l1 \<le> n div 10 \<and> n div 10 \<le> h1 \<and> l2 \<le> n mod 10 \<and> n mod 10 \<le> h2 then [(n, r)] else [])"
  by (simp add: two_digits_def zpad_2 digit_in_digit_char)

lemma digit_in_zpad:
  "n < 100 \<Longrightarrow> digit_in lo hi (zpad 2 n @ r) =
     (if lo \<le> n div 10 \<and> n div 10 \<le> hi then [(n div 10, digit_char (n mod 10) # r)] else [])"
  by (simp add: zpad_2 digit_in_digit_char)

lemma two_digits_any: "n < 100 \<Longrightarrow> two_digits 0 9 0 9 (zpad 2 n @ r) = [(n, r)]"
proof -
  assume n: "n < 100"
  then have "n div 10 \<le> 9" by simp
  moreover have "n mod 10 \<le> 9" by simp
  ultimately show ?thesis using n by (simp add: two_digits_zpad)
qed

lemma dir_Y_zpad: "a < 100 \<Longrightarrow> b < 100 \<Longrightarrow> dir_Y (zpad 4 (a * 100 + b) @ r) = [(100 * a + b, r)]"
  by (simp add: dir_Y_def zpad_4 two_digits_any)

lemma dir_m_zpad:
  assumes "1 \<le> m" "m \<le> 12"
  shows "\<exists>alts. dir_m (zpad 2 m @ r) = (m, r) # alts"
proof (cases "m < 10")
  case True
  then have "m div 10 = 0" "m mod 10 = m" by simp_all
  with assms True show ?thesis by (simp add: dir_m_def two_digits_zpad)
next
  case False
  with assms have "m div 10 = 1" "m mod 10 \<le> 2" by arith+
  with assms show ?thesis by (simp add: dir_m_def two_digits_zpad)
qed

lemma dir_d_zpad:
  assumes "1 \<le> d" "d \<le> 31"
  shows "\<exists>alts. dir_d (zpad 2 d @ r) = (d, r) # alts"
proof -
  consider "d < 10" | "10 \<le> d \<and> d < 30" | "30 \<le> d" by linarith
  then show ?thesis
  proof cases
    case 1
    then have "d div 10 = 0" "d mod 10 = d" by simp_all
    with assms 1 show ?thesis by (simp add: dir_d_def two_digits_zpad)
  next
    case 2
    then have "d div 10 = 1 \<or> d div 10 = 2" by arith
    moreover have "d mod 10 \<le> 9" by simp
    ultimately show ?thesis using assms by (auto simp: dir_d_def two_digits_zpad)
  next
    case 3
    with assms have "d div 10 = 3" "d mod 10 \<le> 1" by arith+
    with assms show ?thesis by (simp add: dir_d_def two_digits_zpad)
  qed
qed

lemma dir_H_zpad:
  assumes "h \<le> 23"
  shows "\<exists>alts. dir_H (zpad 2 h @ r) = (h, r) # alts"
proof (cases "h < 20")
  case True
  then have "h div 10 = 0 \<or> h div 10 = 1" by arith
  moreover have "h mod 10 \<le> 9" by simp
  ultimately show ?thesis using True by (auto simp: dir_H_def two_digits_zpad)
next
  case False
  with assms have "h div 10 = 2" "h mod 10 \<le> 3" by arith+
  with assms show ?thesis by (simp add: dir_H_def two_digits_zpad)
qed

lemma dir_M_zpad:
  assumes "m \<le> 59"
  shows "\<exists>alts. dir_M (zpad 2 m @ r) = (m, r) # alts"
proof -
  have "m div 10 \<le> 5" using assms by arith
  moreover have "m mod 10 \<le> 9" by simp
  ultimately show ?thesis using assms by (simp add: dir_M_def two_digits_zpad)
qed

lemma dir_S_zpad:
  assumes "s \<le> 59"
  shows "\<exists>alts. dir_S (zpad 2 s @ r) = (s, r) # alts"
proof -
  have "s div 10 \<le> 5" using assms by arith
  moreover have "s mod 10 \<le> 9" by simp
  ultimately show ?thesis using assms by (simp add: dir_S_def two_digits_zpad)
qed

lemma seq_head:
  "\<exists>alts. p s = (a, r) # alts \<Longrightarrow> \<exists>alts. f a r = x # alts \<Longrightarrow> \<exists>alts. seq p f s = x # alts"
  by (auto simp: seq_def)

lemma lit_head: "c = lo \<or> c = up \<Longrightarrow> \<exists>alts. lit lo up (c # r) = ((), r) # alts"
  by (simp add: lit_def)

lemma ret_head: "\<exists>alts. ret a s = (a, s) # alts"
  by (simp add: ret_def)

lemma first_match_head:
  "\<exists>alts. p s = (t, []) # alts \<Longrightarrow> valid_datetime t \<Longrightarrow> first_match p s = Inr t"
  by (auto simp: first_match_def)

section \<open>Valid dates and times are read back as written\<close>

lemma dir_Y_head: "y \<le> 9999 \<Longrightarrow> \<exists>alts. dir_Y (zpad 4 y @ r) = (y, r) # alts"
proof -
  assume y: "y \<le> 9999"
  then have a: "y div 100 < 100" by simp
  have b: "y mod 100 < 100" by simp
  have "dir_Y (zpad 4 (y div 100 * 100 + y mod 100) @ r) = [(100 * (y div 100) + y mod 100, r)]"
    using a b by (rule dir_Y_zpad)
  then show ?thesis by simp
qed

lemma days_in_month_le: "days_in_month y m \<le> 31"
  by (simp add: days_in_month_def)

lemma compact_parser_head:
  assumes "Y \<le> 9999" "1 \<le> M" "M \<le> 12" "1 \<le> D" "D \<le> 31" "h \<le> 23" "mi \<le> 59" "s \<le> 59"
  shows "\<exists>alts.
    seq dir_Y (\<lambda>y. seq dir_m (\<lambda>mo. seq dir_d (\<lambda>d. seq (lit CHR ''t'' CHR ''T'') (\<lambda>_.
      seq dir_H (\<lambda>h. seq dir_M (\<lambda>mi. seq dir_S (\<lambda>sec.
        ret \<lparr>year = y, month = mo, day = d, hour = h, minute = mi, second = sec\<rparr>)))))))
      (zpad 4 Y @ zpad 2 M @ zpad 2 D @ CHR ''T'' # zpad 2 h @ zpad 2 mi @ zpad 2 s @ r) =
    (\<lparr>year = Y, month = M, day = D, hour = h, minute = mi, second = s\<rparr>, r) # alts"
  apply (rule seq_head, rule dir_Y_head, rule assms)
  apply (rule seq_head, rule dir_m_zpad, rule assms, rule assms)
  apply (rule seq_head, rule dir_d_zpad, rule assms, rule assms)
  apply (rule seq_head, rule lit_head, simp)
  apply (rule seq_head, rule dir_H_zpad, rule assms)
  apply (rule seq_head, rule dir_M_zpad, rule assms)
  apply (rule seq_head, rule dir_S_zpad, rule assms)
  apply (rule ret_head)
  done

lemma strptime_compact_valid:
  assumes "1 \<le> Y" "Y \<le> 9999" "1 \<le> M" "M \<le> 12" "1 \<le> D" "D \<le> days_in_month Y M"
    "h \<le> 23" "mi \<le> 59" "s \<le> 59"
  shows "strptime_compact
           (zpad 4 Y @ zpad 2 M @ zpad 2 D @ CHR ''T'' # zpad 2 h @ zpad 2 mi @ zpad 2 s) =
         Inr \<lparr>year = Y, month = M, day = D, hour = h, minute = mi, second = s\<rparr>"
proof -
  have d31: "D \<le> 31" using assms(6) days_in_month_le [of Y M] by simp
  have v: "valid_datetime \<lparr>year = Y, month = M, day = D, hour = h, minute = mi, second = s\<rparr>"
    using assms by (simp add: valid_datetime_def)
  have "\<exists>alts.
    seq dir_Y (\<lambda>y. seq dir_m (\<lambda>mo. seq dir_d (\<lambda>d. seq (lit CHR ''t'' CHR ''T'') (\<lambda>_.
      seq dir_H (\<lambda>h. seq dir_M (\<lambda>mi. seq dir_S (\<lambda>sec.
        ret \<lparr>year = y, month = mo, day = d, hour = h, minute = mi, second = sec\<rparr>)))))))
      (zpad 4 Y @ zpad 2 M @ zpad 2 D @ CHR ''T'' # zpad 2 h @ zpad 2 mi @ zpad 2 s @ []) =
    (\<lparr>year = Y, month = M, day = D, hour = h, minute = mi, second = s\<rparr>, []) # alts"
    using assms(2-5) d31 assms(7-9) by (rule compact_parser_head)
  then show ?thesis
    unfolding strptime_compact_def using v by (simp add: first_match_head)
qed

lemma format_06d_time:
  assumes "h < 100" "mi < 100" "s < 100"
  shows "format_06d (JInt (int (h * 10000 + mi * 100 + s))) = Inr (zpad 2 h @ zpad 2 mi @ zpad 2 s)"
proof -
  have "format_06d (JInt (int (h * 10000 + mi * 100 + s))) = Inr (zpad 6 (h * 10000 + mi * 100 + s))"
    by (simp del: of_nat_add of_nat_mult)
  then show ?thesis using assms by (simp only: zpad_6)
qed

lemma observation_datetime_valid:
  assumes "1 \<le> Y" "Y \<le> 9999" "1 \<le> M" "M \<le> 12" "1 \<le> D" "D \<le> days_in_month Y M"
    "h \<le> 23" "mi \<le> 59" "s \<le> 59"
    and "2 < length awic"
    and "awic ! 1 = JStr (zpad 4 Y @ zpad 2 M @ zpad 2 D)"
    and "awic ! 2 = JInt (int (h * 10000 + mi * 100 + s))"
  shows "observation_datetime awic =
         Inr (nat_str Y @ ''-'' @ zpad 2 M @ ''-'' @ zpad 2 D @ ''T'' @
              zpad 2 h @ '':'' @ zpad 2 mi @ '':'' @ zpad 2 s)"
proof -
  have t: "format_06d (awic ! 2) = Inr (zpad 2 h @ zpad 2 mi @ zpad 2 s)"
    unfolding assms(12) using assms(7-9) by (intro format_06d_time) simp_all
  have p: "strptime_compact
             (zpad 4 Y @ zpad 2 M @ zpad 2 D @ CHR ''T'' # zpad 2 h @ zpad 2 mi @ zpad 2 s) =
           Inr \<lparr>year = Y, month = M, day = D, hour = h, minute = mi, second = s\<rparr>"
    using assms(1-9) by (rule strptime_compact_valid)
  have d: "awic ! Suc 0 = JStr (zpad 4 Y @ zpad 2 M @ zpad 2 D)"
    using assms(11) by simp
  show ?thesis
    using assms(10) by (simp add: observation_datetime_def t d p strftime_iso_def)
qed

lemmas zpad_eval = zpad_def nat_str_small nat_str_large digit_char_def

text \<open>
  C4 as the specification states it, for any valid pair of a date and a time: the date
  20250115 with the time of day given as the text \<^verbatim>\<open>093000\<close>, which is a valid HHMMSS
  as it stands, is not parsed at all. The format code \<^verbatim>\<open>06d\<close> takes integers only, and
  the call raises ValueError.
\<close>

theorem timestamp_round_trip_counterexample:
  "observation_datetime [JStr ''12345'', JStr ''20250115'', JStr ''093000''] = Inl ValueError"
  by (simp add: observation_datetime_def)

text \<open>
  C4, amended: for a date that exists (years 1 to 9999) written as the text YYYYMMDD and a
  time of day given as the integer HHMMSS (hours to 23, minutes and seconds to 59), the
  text that \<^verbatim>\<open>format_awic_product\<close> builds from them, the time zero-filled to six
  digits, is parsed into the timestamp with exactly this year, month, day, hour, minute
  and second; the timestamp is then printed with these components, the year as the
  plain number and the other fields with two digits.
\<close>

theorem timestamp_round_trip:
  assumes "1 \<le> Y" "Y \<le> 9999" "1 \<le> M" "M \<le> 12" "1 \<le> D" "D \<le> days_in_month Y M"
    "h \<le> 23" "mi \<le> 59" "s \<le> 59"
    and "2 < length awic"
    and "awic ! 1 = JStr (zpad 4 Y @ zpad 2 M @ zpad 2 D)"
    and "awic ! 2 = JInt (int (h * 10000 + mi * 100 + s))"
  shows "strptime_compact
           (zpad 4 Y @ zpad 2 M @ zpad 2 D @ ''T'' @ zpad 6 (h * 10000 + mi * 100 + s)) =
         Inr \<lparr>year = Y, month = M, day = D, hour = h, minute = mi, second = s\<rparr> \<and>
         observation_datetime awic =
         Inr (nat_str Y @ ''-'' @ zpad 2 M @ ''-'' @ zpad 2 D @ ''T'' @
              zpad 2 h @ '':'' @ zpad 2 mi @ '':'' @ zpad 2 s)"
proof -
  have z: "zpad 6 (h * 10000 + mi * 100 + s) = zpad 2 h @ zpad 2 mi @ zpad 2 s"
    using assms(7-9) by (intro zpad_6) simp_all
  have "strptime_compact
          (zpad 4 Y @ zpad 2 M @ zpad 2 D @ CHR ''T'' # zpad 2 h @ zpad 2 mi @ zpad 2 s) =
        Inr \<lparr>year = Y, month = M, day = D, hour = h, minute = mi, second = s\<rparr>"
    using assms(1-9) by (rule strptime_compact_valid)
  moreover have "observation_datetime awic =
         Inr (nat_str Y @ ''-'' @ zpad 2 M @ ''-'' @ zpad 2 D @ ''T'' @
              zpad 2 h @ '':'' @ zpad 2 mi @ '':'' @ zpad 2 s)"
    using assms by (rule observation_datetime_valid)
  ultimately show ?thesis by (simp add: z)
qed

theorem timestamp_round_trip_witness:
  "(1::nat) \<le> 2025 \<and> (2025::nat) \<le> 9999 \<and> (15::nat) \<le> days_in_month 2025 1 \<and>
   strptime_compact ''20250115T093000'' =
     Inr \<lparr>year = 2025, month = 1, day = 15, hour = 9, minute = 30, second = 0\<rparr> \<and>
   observation_datetime [JStr ''12345'', JStr ''20250115'', JInt 93000] =
     Inr ''2025-01-15T09:30:00'' \<and>
   strptime_compact ''09990229T235959'' = Inl ValueError \<and>
   strptime_compact ''09990115T093000'' =
     Inr \<lparr>year = 999, month = 1, day = 15, hour = 9, minute = 30, second = 0\<rparr> \<and>
   observation_datetime [JStr ''12345'', JStr ''09990115'', JInt 93000] =
     Inr ''999-01-15T09:30:00''"
  using timestamp_round_trip [of 2025 1 15 9 30 0 "[JStr ''12345'', JStr ''20250115'', JInt 93000]"]
    timestamp_round_trip [of 999 1 15 9 30 0 "[JStr ''12345'', JStr ''09990115'', JInt 93000]"]
  by (simp add: zpad_eval days_in_month_def strptime_compact_def first_match_def seq_def ret_def
      lit_def dir_Y_def dir_m_def dir_d_def dir_H_def dir_M_def dir_S_def two_digits_def
      digit_in_def digit_val_def valid_datetime_def leap_year_def)

section \<open>The observation of the specification\<close>

lemma observation_datetime_scenario:
  "observation_datetime
     [JStr ''12345'', JStr ''20250115'', JInt 93000, JInt 10, JInt 20, JInt 30,
             JInt 15, JInt 5, JInt 20, JStr ''A'', JInt 40, JInt 60, v] = Inr ''2025-01-15T09:30:00''"
  using observation_datetime_valid [of 2025 1 15 9 30 0 "[JStr ''12345'', JStr ''20250115'', JInt 93000, JInt 10, JInt 20, JInt 30,
             JInt 15, JInt 5, JInt 20, JStr ''A'', JInt 40, JInt 60, v]"]
  by (simp add: zpad_eval days_in_month_def)

text \<open>
  C1 as the specification states it, with the time given as the string \<^verbatim>\<open>"093000"\<close>: the
  format code \<^verbatim>\<open>06d\<close> refuses a string, and the call raises ValueError instead of
  returning the record.
\<close>

theorem format_awic_product_scenario_counterexample:
  "format_awic_product
     (JList [JStr ''12345'', JStr ''20250115'', JStr ''093000'', JInt 10, JInt 20, JInt 30,
             JInt 15, JInt 5, JInt 20, JStr ''A'', JInt 40, JInt 60, JInt 1]) 0 = Inl ValueError"
  by (simp add: format_awic_product_def observation_datetime_def)

text \<open>
  C1, amended: with the time given as the integer 93000, which \<^verbatim>\<open>06d\<close> fills to
  \<^verbatim>\<open>093000\<close>, the raw array of the specification at index 0 becomes the record with the
  sequence number 1, the timestamp \<^verbatim>\<open>2025-01-15T09:30:00\<close>, the nine middle fields
  unchanged and the mission code 1 turned into \<^verbatim>\<open>Sentinel-1\<close>.
\<close>

theorem format_awic_product_scenario:
  "format_awic_product
     (JList [JStr ''12345'', JStr ''20250115'', JInt 93000, JInt 10, JInt 20, JInt 30,
             JInt 15, JInt 5, JInt 20, JStr ''A'', JInt 40, JInt 60, JInt 1]) 0 =
   Inr [JInt 1, JStr ''12345'', JStr ''2025-01-15T09:30:00'', JInt 10, JInt 20, JInt 30,
        JInt 15, JInt 5, JInt 20, JStr ''A'', JInt 40, JInt 60, JStr ''Sentinel-1'']"
  by (simp add: format_awic_product_def observation_datetime_scenario mission_def mission_key_def mission_labels_def)

section \<open>The mission label\<close>

lemma mission_short: "length awic \<le> 12 \<Longrightarrow> mission awic = Inr ''''"
  by (simp add: mission_def)

lemma mission_long:
  "12 < length awic \<Longrightarrow>
   mission awic =
     (case mission_key (awic ! 12) of
        Inl e \<Rightarrow> Inl e
      | Inr None \<Rightarrow> Inr ''''
      | Inr (Some k) \<Rightarrow> Inr (case mission_labels k of None \<Rightarrow> '''' | Some l \<Rightarrow> l))"
  by (simp add: mission_def)

lemma mission_labels_other: "k \<noteq> 0 \<Longrightarrow> k \<noteq> 1 \<Longrightarrow> k \<noteq> 2 \<Longrightarrow> mission_labels k = None"
  by (simp add: mission_labels_def)

lemma format_awic_product_last:
  "format_awic_product (JList awic) i = Inr r \<Longrightarrow> \<exists>label. mission awic = Inr label \<and> last r = JStr label"
  by (auto simp: format_awic_product_def split: sum.splits)

text \<open>
  C2 as the specification states it fails for values other than the integers 0, 1 and 2:
  the JSON value \<^verbatim>\<open>true\<close> at index 12 finds the key 1 of the table and gives the label
  \<^verbatim>\<open>Sentinel-1\<close>, not the empty one, and a list at index 12 cannot be looked up at all
  (TypeError).
\<close>

theorem mission_label_counterexample:
  "format_awic_product
     (JList [JStr ''12345'', JStr ''20250115'', JInt 93000, JInt 10, JInt 20, JInt 30,
             JInt 15, JInt 5, JInt 20, JStr ''A'', JInt 40, JInt 60, JBool True]) 0 =
   Inr [JInt 1, JStr ''12345'', JStr ''2025-01-15T09:30:00'', JInt 10, JInt 20, JInt 30,
        JInt 15, JInt 5, JInt 20, JStr ''A'', JInt 40, JInt 60, JStr ''Sentinel-1''] \<and>
   format_awic_product
     (JList [JStr ''12345'', JStr ''20250115'', JInt 93000, JInt 10, JInt 20, JInt 30,
             JInt 15, JInt 5, JInt 20, JStr ''A'', JInt 40, JInt 60, JList []]) 0 = Inl TypeError"
  by (simp add: format_awic_product_def observation_datetime_scenario mission_def mission_key_def mission_labels_def)

text \<open>
  C2, amended: a raw array shorter than 13 elements has the empty label. Otherwise the
  element at index 12 decides: what Python holds equal to 0 (the integer 0, \<^verbatim>\<open>false\<close>,
  the floats 0.0 and -0.0) gives \<^verbatim>\<open>Sentinel-1 Sentinel-2\<close>, what it holds equal to 1 (the
  integer 1, \<^verbatim>\<open>true\<close>, the float 1.0) gives \<^verbatim>\<open>Sentinel-1\<close>, what it holds equal to 2
  (the integer 2, the float 2.0) gives \<^verbatim>\<open>Sentinel-2\<close>; a list or an object raises
  TypeError; every other value gives the empty label and no error. The label is the last
  field of the formatted record.
\<close>

theorem mission_label_table:
  "(length awic \<le> 12 \<longrightarrow> mission awic = Inr '''') \<and>
   (12 < length awic \<longrightarrow>
      (awic ! 12 \<in> {JInt 0, JBool False, JFloat ''0.0'', JFloat ''-0.0''} \<longrightarrow>
         mission awic = Inr ''Sentinel-1 Sentinel-2'') \<and>
      (awic ! 12 \<in> {JInt 1, JBool True, JFloat ''1.0''} \<longrightarrow> mission awic = Inr ''Sentinel-1'') \<and>
      (awic ! 12 \<in> {JInt 2, JFloat ''2.0''} \<longrightarrow> mission awic = Inr ''Sentinel-2'') \<and>
      ((\<exists>xs. awic ! 12 = JList xs) \<or> (\<exists>kvs. awic ! 12 = JObj kvs) \<longrightarrow>
         mission awic = Inl TypeError) \<and>
      (awic ! 12 \<notin> {JInt 0, JBool False, JFloat ''0.0'', JFloat ''-0.0'', JInt 1, JBool True,
                      JFloat ''1.0'', JInt 2, JFloat ''2.0''} \<and>
       (\<forall>xs. awic ! 12 \<noteq> JList xs) \<and> (\<forall>kvs. awic ! 12 \<noteq> JObj kvs) \<longrightarrow>
         mission awic = Inr '''')) \<and>
   (\<forall>i r. format_awic_product (JList awic) i = Inr r \<longrightarrow>
      (\<exists>label. mission awic = Inr label \<and> last r = JStr label))"
proof (intro conjI impI allI)
  assume "length awic \<le> 12"
  then show "mission awic = Inr ''''" by (rule mission_short)
next
  assume "12 < length awic" "awic ! 12 \<in> {JInt 0, JBool False, JFloat ''0.0'', JFloat ''-0.0''}"
  then show "mission awic = Inr ''Sentinel-1 Sentinel-2''"
    by (auto simp: mission_long mission_key_def mission_labels_def)
next
  assume "12 < length awic" "awic ! 12 \<in> {JInt 1, JBool True, JFloat ''1.0''}"
  then show "mission awic = Inr ''Sentinel-1''"
    by (auto simp: mission_long mission_key_def mission_labels_def)
next
  assume "12 < length awic" "awic ! 12 \<in> {JInt 2, JFloat ''2.0''}"
  then show "mission awic = Inr ''Sentinel-2''"
    by (auto simp: mission_long mission_key_def mission_labels_def)
next
  assume "12 < length awic" "(\<exists>xs. awic ! 12 = JList xs) \<or> (\<exists>kvs. awic ! 12 = JObj kvs)"
  then show "mission awic = Inl TypeError"
    by (auto simp: mission_long mission_key_def)
next
  assume l: "12 < length awic"
    and o: "awic ! 12 \<notin> {JInt 0, JBool False, JFloat ''0.0'', JFloat ''-0.0'', JInt 1, JBool True,
                      JFloat ''1.0'', JInt 2, JFloat ''2.0''} \<and>
       (\<forall>xs. awic ! 12 \<noteq> JList xs) \<and> (\<forall>kvs. awic ! 12 \<noteq> JObj kvs)"
  show "mission awic = Inr ''''"
  proof (cases "awic ! 12")
    case (JInt n)
    with o have "n \<noteq> 0" "n \<noteq> 1" "n \<noteq> 2" by simp_all
    then have "mission_labels n = None" by (rule mission_labels_other)
    with l JInt show ?thesis by (simp add: mission_long mission_key_def)
  next
    case (JBool b)
    with o show ?thesis by (cases b) simp_all
  next
    case (JFloat t)
    with o l show ?thesis by (simp add: mission_long mission_key_def)
  qed (use o l in \<open>simp_all add: mission_long mission_key_def\<close>)
next
  fix i r
  assume "format_awic_product (JList awic) i = Inr r"
  then show "\<exists>label. mission awic = Inr label \<and> last r = JStr label"
    by (rule format_awic_product_last)
qed

theorem mission_label_table_witness:
  "mission [JStr ''12345'', JStr ''20250115'', JInt 93000, JInt 10, JInt 20, JInt 30,
            JInt 15, JInt 5, JInt 20, JStr ''A'', JInt 40, JInt 60, JInt 2] = Inr ''Sentinel-2'' \<and>
   mission [JStr ''12345'', JStr ''20250115'', JInt 93000, JInt 10, JInt 20, JInt 30,
            JInt 15, JInt 5, JInt 20, JStr ''A'', JInt 40, JInt 60, JInt 7] = Inr '''' \<and>
   mission [JStr ''12345'', JStr ''20250115'', JInt 93000, JInt 10, JInt 20, JInt 30,
            JInt 15, JInt 5, JInt 20, JStr ''A'', JInt 40, JInt 60] = Inr '''' \<and>
   mission [JStr ''12345'', JStr ''20250115'', JInt 93000, JInt 10, JInt 20, JInt 30,
            JInt 15, JInt 5, JInt 20, JStr ''A'', JInt 40, JInt 60, JObj []] = Inl TypeError"
  using
    mission_label_table [of "[JStr ''12345'', JStr ''20250115'', JInt 93000, JInt 10, JInt 20,
       JInt 30, JInt 15, JInt 5, JInt 20, JStr ''A'', JInt 40, JInt 60, JInt 2]"]
    mission_label_table [of "[JStr ''12345'', JStr ''20250115'', JInt 93000, JInt 10, JInt 20,
       JInt 30, JInt 15, JInt 5, JInt 20, JStr ''A'', JInt 40, JInt 60, JInt 7]"]
    mission_label_table [of "[JStr ''12345'', JStr ''20250115'', JInt 93000, JInt 10, JInt 20,
       JInt 30, JInt 15, JInt 5, JInt 20, JStr ''A'', JInt 40, JInt 60]"]
    mission_label_table [of "[JStr ''12345'', JStr ''20250115'', JInt 93000, JInt 10, JInt 20,
       JInt 30, JInt 15, JInt 5, JInt 20, JStr ''A'', JInt 40, JInt 60, JObj []]"]
  by simp

section \<open>The request of the specification\<close>

lemmas parser_eval =
  first_match_def seq_def ret_def lit_def dir_Y_def dir_m_def dir_d_def two_digits_def
  digit_in_def digit_val_def valid_datetime_def days_in_month_def leap_year_def

lemma strptime_date_examples:
  "strptime_date ''2025-01-15'' = Inr \<lparr>year = 2025, month = 1, day = 15, hour = 0, minute = 0, second = 0\<rparr>"
  "strptime_date ''2025-01-25'' = Inr \<lparr>year = 2025, month = 1, day = 25, hour = 0, minute = 0, second = 0\<rparr>"
  "strptime_date ''2025-1-5'' = Inr \<lparr>year = 2025, month = 1, day = 5, hour = 0, minute = 0, second = 0\<rparr>"
  by (simp_all add: strptime_date_def parser_eval)

lemmas request_eval =
  build_request_def build_targets_def date_param_def validate_Rfc3339_def encode_wkt_def
  replace_char_def URL_ROOT_def AWIC_PROC_def GEOMETRY_PROC_def URL_PARAM_GEOMETRYWKT_WGS84_def
  URL_PARAM_GEOMETRYWKT_LAEA_def URL_PARAM_OBSERVATIONDATE_AFTER_def
  URL_PARAM_OBSERVATIONDATE_BEFORE_def URL_PARAM_CLOUD_PERCENTAGE_def
  URL_PARAM_OUTPUT_SRID_GEOMETRY_def

lemma build_request_scenario_value:
  "build_request
     \<lparr>outputDir = None, awic_http_request = None, geometry_http_request = None,
       awic_result_file = None\<rparr>
     (Some ''2025-01-15'') (Some ''2025-01-25'') (Some ''POINT(22.457940 49.367854)'') None None =
   (Inr (),
    \<lparr>outputDir = None,
      awic_http_request = Some ''https://wsi.land.copernicus.eu/awic/get_awic?geometrywkt_wgs84=POINT(22.457940+49.367854)&startdate=2025-01-15&completiondate=2025-01-25'',
      geometry_http_request = Some ''https://wsi.land.copernicus.eu/awic/get_geometries?geometrywkt_wgs84=POINT(22.457940+49.367854)&output_srid=wgs84'',
      awic_result_file = None\<rparr>)"
  by (simp add: request_eval strptime_date_examples)

lemma build_request_scenario_url:
  "the (awic_http_request (snd (build_request
          \<lparr>outputDir = None, awic_http_request = None, geometry_http_request = None,
            awic_result_file = None\<rparr>
          (Some ''2025-01-15'') (Some ''2025-01-25'') (Some ''POINT(22.457940 49.367854)'')
          None None))) =
   ''https://wsi.land.copernicus.eu/awic/get_awic?geometrywkt_wgs84=POINT(22.457940+49.367854)&startdate=2025-01-15&completiondate=2025-01-25''"
  unfolding build_request_scenario_value by simp

text \<open>
  C3 as the specification states it: the observation target does not contain the text with
  \<^verbatim>\<open>%28\<close> and \<^verbatim>\<open>%29\<close>, since parentheses are left as they are.
\<close>

theorem build_request_scenario_counterexample:
  "\<not> sublist ''geometrywkt_wgs84=POINT%2822.457940+49.367854%29&startdate=2025-01-15&completiondate=2025-01-25''
       (the (awic_http_request (snd (build_request
          \<lparr>outputDir = None, awic_http_request = None, geometry_http_request = None,
            awic_result_file = None\<rparr>
          (Some ''2025-01-15'') (Some ''2025-01-25'') (Some ''POINT(22.457940 49.367854)'')
          None None))))"
  unfolding build_request_scenario_url
proof
  assume "sublist ''geometrywkt_wgs84=POINT%2822.457940+49.367854%29&startdate=2025-01-15&completiondate=2025-01-25''
      ''https://wsi.land.copernicus.eu/awic/get_awic?geometrywkt_wgs84=POINT(22.457940+49.367854)&startdate=2025-01-15&completiondate=2025-01-25''"
  then have "set ''geometrywkt_wgs84=POINT%2822.457940+49.367854%29&startdate=2025-01-15&completiondate=2025-01-25''
      \<subseteq> set ''https://wsi.land.copernicus.eu/awic/get_awic?geometrywkt_wgs84=POINT(22.457940+49.367854)&startdate=2025-01-15&completiondate=2025-01-25''"
    by (rule set_mono_sublist)
  then show False by simp
qed

text \<open>
  C3, amended: for the start date 2025-01-15, the completion date 2025-01-25 and the WGS84
  filter \<^verbatim>\<open>POINT(22.457940 49.367854)\<close>, with no LAEA filter and no cloud ceiling, the
  observation target contains
  \<^verbatim>\<open>geometrywkt_wgs84=POINT(22.457940+49.367854)&startdate=2025-01-15&completiondate=2025-01-25\<close>:
  the space is encoded, the parentheses are not.
\<close>

theorem build_request_scenario:
  "sublist ''geometrywkt_wgs84=POINT(22.457940+49.367854)&startdate=2025-01-15&completiondate=2025-01-25''
       (the (awic_http_request (snd (build_request
          \<lparr>outputDir = None, awic_http_request = None, geometry_http_request = None,
            awic_result_file = None\<rparr>
          (Some ''2025-01-15'') (Some ''2025-01-25'') (Some ''POINT(22.457940 49.367854)'')
          None None)))) \<and>
   the (awic_http_request (snd (build_request
          \<lparr>outputDir = None, awic_http_request = None, geometry_http_request = None,
            awic_result_file = None\<rparr>
          (Some ''2025-01-15'') (Some ''2025-01-25'') (Some ''POINT(22.457940 49.367854)'')
          None None))) =
   ''https://wsi.land.copernicus.eu/awic/get_awic?geometrywkt_wgs84=POINT(22.457940+49.367854)&startdate=2025-01-15&completiondate=2025-01-25''"
proof -
  have "sublist ''geometrywkt_wgs84=POINT(22.457940+49.367854)&startdate=2025-01-15&completiondate=2025-01-25''
     (''https://wsi.land.copernicus.eu/awic/get_awic?'' @
      ''geometrywkt_wgs84=POINT(22.457940+49.367854)&startdate=2025-01-15&completiondate=2025-01-25'' @ [])"
    by (rule sublist_appendI)
  then show ?thesis
    unfolding build_request_scenario_url by simp
qed

section \<open>One geometry, and only one\<close>

lemma init_targets:
  "init w od rm = (fx, Inr self) \<Longrightarrow>
   awic_http_request self = None \<and> geometry_http_request self = None"
  by (auto simp: init_def Let_def split: option.splits if_splits)

text \<open>
  C5. When both the WGS84 and the LAEA geometry are given, and when neither is,
  \<^verbatim>\<open>build_request\<close> ends the run with \<^verbatim>\<open>sys.exit()\<close> and leaves the object as it was;
  on an object fresh from the constructor neither the observation target nor the geometry
  target is set afterwards.
\<close>

theorem build_request_one_geometry:
  assumes "(geometrywkt_wgs84 \<noteq> None \<and> geometrywkt_laea \<noteq> None) \<or>
           (geometrywkt_wgs84 = None \<and> geometrywkt_laea = None)"
    and "init w outputDir_arg returnMode = (fx, Inr self)"
  shows "build_request self startDate completionDate geometrywkt_wgs84 geometrywkt_laea
           cloudCoverageMax = (Inl (SystemExit None), self) \<and>
         awic_http_request (snd (build_request self startDate completionDate geometrywkt_wgs84
           geometrywkt_laea cloudCoverageMax)) = None \<and>
         geometry_http_request (snd (build_request self startDate completionDate
           geometrywkt_wgs84 geometrywkt_laea cloudCoverageMax)) = None"
proof -
  have b: "build_request self startDate completionDate geometrywkt_wgs84 geometrywkt_laea
           cloudCoverageMax = (Inl (SystemExit None), self)"
    using assms(1) by (auto simp: build_request_def)
  show ?thesis
    using init_targets [OF assms(2)] by (simp add: b)
qed

theorem build_request_one_geometry_witness:
  "build_request
     \<lparr>outputDir = None, awic_http_request = None, geometry_http_request = None,
       awic_result_file = None\<rparr>
     (Some ''2025-01-15'') (Some ''2025-01-25'') (Some ''POINT(1 2)'') (Some ''POINT(3 4)'') None =
   (Inl (SystemExit None),
    \<lparr>outputDir = None, awic_http_request = None, geometry_http_request = None,
      awic_result_file = None\<rparr>) \<and>
   build_request
     \<lparr>outputDir = None, awic_http_request = None, geometry_http_request = None,
       awic_result_file = None\<rparr>
     (Some ''2025-01-15'') (Some ''2025-01-25'') None None None =
   (Inl (SystemExit None),
    \<lparr>outputDir = None, awic_http_request = None, geometry_http_request = None,
      awic_result_file = None\<rparr>)"
  using build_request_one_geometry
    [of "Some ''POINT(1 2)''" "Some ''POINT(3 4)''"
        "\<lparr>http_get = (\<lambda>u. RequestFailed), abspath = (\<lambda>p. p), path_exists = (\<lambda>p. True),
          makedirs_ok = (\<lambda>p. True), open_ok = (\<lambda>p. True)\<rparr>"
        None "''variable''" "[]"
        "\<lparr>outputDir = None, awic_http_request = None, geometry_http_request = None,
          awic_result_file = None\<rparr>"
        "Some ''2025-01-15''" "Some ''2025-01-25''" None]
    build_request_one_geometry
    [of None None
        "\<lparr>http_get = (\<lambda>u. RequestFailed), abspath = (\<lambda>p. p), path_exists = (\<lambda>p. True),
          makedirs_ok = (\<lambda>p. True), open_ok = (\<lambda>p. True)\<rparr>"
        None "''variable''" "[]"
        "\<lparr>outputDir = None, awic_http_request = None, geometry_http_request = None,
          awic_result_file = None\<rparr>"
        "Some ''2025-01-15''" "Some ''2025-01-25''" None]
  by (simp add: init_def)

section \<open>Dates of the request\<close>

lemma build_request_unparsed_date:
  assumes "geometrywkt_wgs84 = None \<longleftrightarrow> geometrywkt_laea \<noteq> None"
    and "(startDate = Some d \<and> d \<noteq> [] \<and> strptime_date d = Inl e) \<or>
         (completionDate = Some d \<and> d \<noteq> [] \<and> strptime_date d = Inl e)"
  shows "build_request self startDate completionDate geometrywkt_wgs84 geometrywkt_laea
           cloudCoverageMax = (Inl ValueError, self)"
  using assms
  by (auto simp: build_request_def build_targets_def date_param_def validate_Rfc3339_def Let_def
      split: option.splits sum.splits)

text \<open>
  C7 at the start date \<^verbatim>\<open>2025-1-5\<close>, which is not of the form YYYY-MM-DD: \<^verbatim>\<open>strptime\<close>
  takes a month and a day of one digit, so the check passes and both targets are built, the
  observation target with the date as it was given.
\<close>

theorem build_request_short_date:
  "build_request
     \<lparr>outputDir = None, awic_http_request = None, geometry_http_request = None,
       awic_result_file = None\<rparr>
     (Some ''2025-1-5'') None (Some ''POINT(1 2)'') None None =
   (Inr (),
    \<lparr>outputDir = None,
      awic_http_request = Some ''https://wsi.land.copernicus.eu/awic/get_awic?geometrywkt_wgs84=POINT(1+2)&startdate=2025-1-5'',
      geometry_http_request = Some ''https://wsi.land.copernicus.eu/awic/get_geometries?geometrywkt_wgs84=POINT(1+2)&output_srid=wgs84'',
      awic_result_file = None\<rparr>)"
  by (simp add: request_eval strptime_date_examples)

section \<open>Encoding the geometry\<close>

lemma encode_wkt_chars: "encode_wkt wkt = concat (map enc_char wkt)"
  by (induction wkt) (simp_all add: encode_wkt_def replace_char_def enc_char_def)

lemma encode_wkt_Nil: "encode_wkt [] = []"
  by (simp add: encode_wkt_chars)

lemma encode_wkt_Cons: "encode_wkt (c # s) = enc_char c @ encode_wkt s"
  by (simp add: encode_wkt_chars)

lemma encode_starts_2C:
  "take 2 (encode_wkt s) = ''2C'' \<Longrightarrow> \<exists>r. s = CHR ''2'' # CHR ''C'' # r"
proof (cases s)
  case Nil
  assume "take 2 (encode_wkt s) = ''2C''"
  with Nil show ?thesis by (simp add: encode_wkt_Nil)
next
  case (Cons a s')
  assume t: "take 2 (encode_wkt s) = ''2C''"
  with Cons have a: "a = CHR ''2''"
    by (auto simp: encode_wkt_Cons enc_char_def numeral_2_eq_2 split: if_splits)
  with t Cons have t': "take 1 (encode_wkt s') = ''C''"
    by (simp add: encode_wkt_Cons enc_char_def numeral_2_eq_2)
  show ?thesis
  proof (cases s')
    case Nil
    with t' show ?thesis by (simp add: encode_wkt_Nil)
  next
    case (Cons b s'')
    with t' have "b = CHR ''C''"
      by (auto simp: encode_wkt_Cons enc_char_def split: if_splits)
    with a Cons \<open>s = a # s'\<close> show ?thesis by simp
  qed
qed

lemma decode_encode:
  "CHR ''+'' \<notin> set wkt \<Longrightarrow> \<not> sublist ''%2C'' wkt \<Longrightarrow> decode_wkt (encode_wkt wkt) = wkt"
proof (induction wkt)
  case Nil
  show ?case by (simp add: encode_wkt_Nil)
next
  case (Cons c s)
  from Cons.prems(2) have ns: "\<not> sublist ''%2C'' s"
    by (auto simp: sublist_Cons_right)
  from Cons.prems(1) have np: "CHR ''+'' \<notin> set s" and cp: "c \<noteq> CHR ''+''" by auto
  have ih: "decode_wkt (encode_wkt s) = s" using np ns by (rule Cons.IH)
  have pct: "c = CHR ''%'' \<Longrightarrow> take 2 (encode_wkt s) \<noteq> ''2C''"
  proof
    assume c: "c = CHR ''%''" and "take 2 (encode_wkt s) = ''2C''"
    then obtain r where "s = CHR ''2'' # CHR ''C'' # r" using encode_starts_2C by blast
    with c have "c # s = [] @ ''%2C'' @ r" by simp
    then have "sublist ''%2C'' (c # s)" unfolding sublist_def by blast
    with Cons.prems(2) show False by simp
  qed
  show ?case
  proof (cases "c = CHR '',''")
    case True
    then show ?thesis by (simp add: encode_wkt_Cons enc_char_def ih)
  next
    case False
    show ?thesis
    proof (cases "c = CHR '' ''")
      case True
      then show ?thesis by (simp add: encode_wkt_Cons enc_char_def ih)
    next
      case nsp: False
      show ?thesis
      proof (cases "c = CHR ''%''")
        case True
        with pct have "take 2 (encode_wkt s) \<noteq> ''2C''" by simp
        with True show ?thesis by (simp add: encode_wkt_Cons enc_char_def ih)
      next
        case npc: False
        with False nsp cp show ?thesis by (simp add: encode_wkt_Cons enc_char_def ih)
      qed
    qed
  qed
qed

text \<open>
  C6 as the specification states it fails for a text with a plus sign: the exponent of
  \<^verbatim>\<open>1e+20\<close> is left as it is by the encoding and comes back as a space.
\<close>

theorem encode_wkt_round_trip_counterexample:
  "decode_wkt (encode_wkt ''POINT(1e+20 5)'') \<noteq> ''POINT(1e+20 5)''"
  by (simp add: encode_wkt_def replace_char_def)

text \<open>
  C6, amended: for every text with no plus sign and no \<^verbatim>\<open>%2C\<close> in it, decoding the
  encoded text gives the text back; and the encoding works character by character, a comma
  becoming \<^verbatim>\<open>%2C\<close>, a space becoming \<^verbatim>\<open>+\<close> and every other character staying as it
  is.
\<close>

theorem encode_wkt_round_trip:
  "(CHR ''+'' \<notin> set wkt \<and> \<not> sublist ''%2C'' wkt \<longrightarrow> decode_wkt (encode_wkt wkt) = wkt) \<and>
   encode_wkt wkt =
     concat (map (\<lambda>c. if c = CHR '','' then ''%2C'' else if c = CHR '' '' then ''+'' else [c]) wkt)"
proof
  show "CHR ''+'' \<notin> set wkt \<and> \<not> sublist ''%2C'' wkt \<longrightarrow> decode_wkt (encode_wkt wkt) = wkt"
    using decode_encode by blast
  have "enc_char = (\<lambda>c. if c = CHR '','' then ''%2C'' else if c = CHR '' '' then ''+'' else [c])"
    by (rule ext) (simp add: enc_char_def)
  then show "encode_wkt wkt =
     concat (map (\<lambda>c. if c = CHR '','' then ''%2C'' else if c = CHR '' '' then ''+'' else [c]) wkt)"
    using encode_wkt_chars [of wkt] by simp
qed

lemma not_sublist_short: "\<not> sublist ''%2C'' ''POLYGON((1 2,3 4))''"
  by (simp add: sublist_Cons_right prefix_Cons)

theorem encode_wkt_round_trip_witness:
  "CHR ''+'' \<notin> set ''POLYGON((1 2,3 4))'' \<and> \<not> sublist ''%2C'' ''POLYGON((1 2,3 4))'' \<and>
   decode_wkt ''POLYGON((1+2%2C3+4))'' = ''POLYGON((1 2,3 4))'' \<and>
   encode_wkt ''POLYGON((1 2,3 4))'' = ''POLYGON((1+2%2C3+4))''"
  using encode_wkt_round_trip [of "''POLYGON((1 2,3 4))''"] not_sublist_short
  by simp

section \<open>Failures of the two requests\<close>

lemma request_page_degrades:
  assumes "http_get w u = RequestFailed \<or>
           (\<exists>st b. http_get w u = Response st b \<and> ((400 \<le> st \<and> st < 600) \<or> b = None))"
  shows "request_page w u = ([HttpGet u], Inr [])"
  using assms by (auto simp: request_page_def)

lemma request_geometry_exits:
  assumes "http_get w u = RequestFailed \<or> (\<exists>b. http_get w u = Response 414 b) \<or>
           (\<exists>st. http_get w u = Response st None)"
  shows "request_geometry w u returnMode geometriesPath = ([HttpGet u], Inl (SystemExit (Some 500)))"
  using assms by (auto simp: request_geometry_def)

text \<open>
  C8 at a geometry call answered with the status 500 and the body \<^verbatim>\<open>[]\<close>: the status is
  never looked at (only 414 is), so \<^verbatim>\<open>request_geometry\<close> returns an empty list and the
  run goes on to the observation call and ends normally.
\<close>

theorem request_geometry_server_error:
  "request_geometry
     \<lparr>http_get = (\<lambda>u. Response 500 (Some (JList []))), abspath = (\<lambda>p. p),
       path_exists = (\<lambda>p. True), makedirs_ok = (\<lambda>p. True), open_ok = (\<lambda>p. True)\<rparr>
     ''https://wsi.land.copernicus.eu/awic/get_geometries?geometrywkt_wgs84=POINT(1+2)&output_srid=wgs84''
     ''variable'' None =
   ([HttpGet ''https://wsi.land.copernicus.eu/awic/get_geometries?geometrywkt_wgs84=POINT(1+2)&output_srid=wgs84''],
    Inr []) \<and>
   download_awic_products
     \<lparr>http_get = (\<lambda>u. Response 500 (Some (JList []))), abspath = (\<lambda>p. p),
       path_exists = (\<lambda>p. True), makedirs_ok = (\<lambda>p. True), open_ok = (\<lambda>p. True)\<rparr>
     ''variable'' None None None (Some ''POINT(1 2)'') None None True =
   ([HttpGet ''https://wsi.land.copernicus.eu/awic/get_geometries?geometrywkt_wgs84=POINT(1+2)&output_srid=wgs84'',
     HttpGet ''https://wsi.land.copernicus.eu/awic/get_awic?geometrywkt_wgs84=POINT(1+2)''],
    Inr (Some [], Some []))"
  by (simp add: request_geometry_def is_error_object_def csv_mode_def download_awic_products_def
      init_def request_eval execute_request_def request_page_def)

text \<open>
  C9 at an observation call answered with the status 200 and the object with the code
  \<^verbatim>\<open>0100E\<close>: \<^verbatim>\<open>request_page\<close> has no check for it; the loop takes the key \<^verbatim>\<open>code\<close>, a
  string, as an item and the call of \<^verbatim>\<open>get\<close> on it raises AttributeError, as it does for
  any other object that is not empty. \<^verbatim>\<open>request_geometry\<close> on the same answer leaves
  with the exit code 413. Nothing is written in either case.
\<close>

theorem request_page_error_object:
  "request_page
     \<lparr>http_get = (\<lambda>u. Response 200 (Some (JObj [(''code'', JStr ''0100E''), (''message'', JStr ''Request too large'')]))),
       abspath = (\<lambda>p. p), path_exists = (\<lambda>p. True), makedirs_ok = (\<lambda>p. True),
       open_ok = (\<lambda>p. True)\<rparr>
     ''https://wsi.land.copernicus.eu/awic/get_awic?geometrywkt_wgs84=POINT(1+2)'' =
   ([HttpGet ''https://wsi.land.copernicus.eu/awic/get_awic?geometrywkt_wgs84=POINT(1+2)''],
    Inl AttributeError) \<and>
   request_page
     \<lparr>http_get = (\<lambda>u. Response 200 (Some (JObj [(''count'', JInt 0)]))),
       abspath = (\<lambda>p. p), path_exists = (\<lambda>p. True), makedirs_ok = (\<lambda>p. True),
       open_ok = (\<lambda>p. True)\<rparr>
     ''https://wsi.land.copernicus.eu/awic/get_awic?geometrywkt_wgs84=POINT(1+2)'' =
   ([HttpGet ''https://wsi.land.copernicus.eu/awic/get_awic?geometrywkt_wgs84=POINT(1+2)''],
    Inl AttributeError) \<and>
   request_geometry
     \<lparr>http_get = (\<lambda>u. Response 200 (Some (JObj [(''code'', JStr ''0100E''), (''message'', JStr ''Request too large'')]))),
       abspath = (\<lambda>p. p), path_exists = (\<lambda>p. True), makedirs_ok = (\<lambda>p. True),
       open_ok = (\<lambda>p. True)\<rparr>
     ''https://wsi.land.copernicus.eu/awic/get_geometries?geometrywkt_wgs84=POINT(1+2)&output_srid=wgs84''
     ''csv'' (Some ''out'') =
   ([HttpGet ''https://wsi.land.copernicus.eu/awic/get_geometries?geometrywkt_wgs84=POINT(1+2)&output_srid=wgs84''],
    Inl (SystemExit (Some 413))) \<and>
   download_awic_products
     \<lparr>http_get = (\<lambda>u. Response 200 (Some (JObj [(''code'', JStr ''0100E''), (''message'', JStr ''Request too large'')]))),
       abspath = (\<lambda>p. p), path_exists = (\<lambda>p. True), makedirs_ok = (\<lambda>p. True),
       open_ok = (\<lambda>p. True)\<rparr>
     ''csv'' (Some ''out'') None None (Some ''POINT(1 2)'') None None False =
   ([HttpGet ''https://wsi.land.copernicus.eu/awic/get_awic?geometrywkt_wgs84=POINT(1+2)''],
    Inl AttributeError)"
  by (simp add: request_geometry_def is_error_object_def csv_mode_def download_awic_products_def
      init_def request_eval execute_request_def request_page_def)

section \<open>The return mode\<close>

text \<open>
  C10. \<^verbatim>\<open>download_awic_products\<close> raises ValueError, with nothing done to the network or
  the file system and no request built, when the return mode is none of \<^verbatim>\<open>csv\<close>,
  \<^verbatim>\<open>csv_and_variable\<close> and \<^verbatim>\<open>variable\<close>, and when it is \<^verbatim>\<open>csv\<close> or
  \<^verbatim>\<open>csv_and_variable\<close> with no output directory.
\<close>

theorem download_rejects_mode:
  assumes "returnMode \<notin> {''csv'', ''csv_and_variable'', ''variable''} \<or>
           (returnMode \<in> {''csv'', ''csv_and_variable''} \<and> outputDir_arg = None)"
  shows "download_awic_products w returnMode outputDir_arg startDate completionDate
           geometrywkt_wgs84 geometrywkt_laea cloudCoverageMax requestGeometries =
         ([], Inl ValueError)"
  using assms by (auto simp: download_awic_products_def)

theorem download_rejects_mode_witness:
  "download_awic_products
     \<lparr>http_get = (\<lambda>u. Response 200 (Some (JList []))), abspath = (\<lambda>p. p),
       path_exists = (\<lambda>p. False), makedirs_ok = (\<lambda>p. True), open_ok = (\<lambda>p. True)\<rparr>
     ''json'' (Some ''out'') (Some ''2025-01-15'') (Some ''2025-01-25'') (Some ''POINT(1 2)'')
     None None True = ([], Inl ValueError) \<and>
   download_awic_products
     \<lparr>http_get = (\<lambda>u. Response 200 (Some (JList []))), abspath = (\<lambda>p. p),
       path_exists = (\<lambda>p. False), makedirs_ok = (\<lambda>p. True), open_ok = (\<lambda>p. True)\<rparr>
     ''csv'' None (Some ''2025-01-15'') (Some ''2025-01-25'') (Some ''POINT(1 2)'')
     None None True = ([], Inl ValueError)"
  using download_rejects_mode
    [of "''json''" "Some ''out''"
        "\<lparr>http_get = (\<lambda>u. Response 200 (Some (JList []))), abspath = (\<lambda>p. p),
          path_exists = (\<lambda>p. False), makedirs_ok = (\<lambda>p. True), open_ok = (\<lambda>p. True)\<rparr>"
        "Some ''2025-01-15''" "Some ''2025-01-25''" "Some ''POINT(1 2)''" None None True]
    download_rejects_mode
    [of "''csv''" None
        "\<lparr>http_get = (\<lambda>u. Response 200 (Some (JList []))), abspath = (\<lambda>p. p),
          path_exists = (\<lambda>p. False), makedirs_ok = (\<lambda>p. True), open_ok = (\<lambda>p. True)\<rparr>"
        "Some ''2025-01-15''" "Some ''2025-01-25''" "Some ''POINT(1 2)''" None None True]
  by simp

end
